theory Spec2Isabelle
  imports Complex_Main
begin

section \<open>The mecanum drive controller: reference pipeline and inverse kinematics\<close>

text \<open>
  A shallow embedding of \<^verbatim>\<open>src/src/mecanum_drive_controller.cpp\<close>. The controller
  object is a record that every member function takes and returns; the objects behind
  pointers (the buffered command message, the telemetry message) are record fields that
  are replaced where the C++ mutates them in place.
\<close>

subsection \<open>Doubles\<close>

text \<open>
  A \<^verbatim>\<open>double\<close> is NaN, one of the two infinities, or a number. The guards of the
  controller are \<^verbatim>\<open>std::isnan\<close> tests, which the infinities pass. Arithmetic follows
  IEEE 754 on NaN and the infinities: NaN propagates, \<open>\<infinity> - \<infinity>\<close>, \<open>0 \<times> \<infinity>\<close>,
  \<open>\<infinity> / \<infinity>\<close> and \<open>0 / 0\<close> are NaN, and a number other than zero divided by zero is
  an infinity. On numbers the arithmetic is exact: the numbers are reals, so rounding and
  overflow are outside the model, and there is one zero, which divides as the positive
  zero does.
\<close>

datatype double = NaN | PInf | NInf | Val real

definition isnan :: "double \<Rightarrow> bool" where
  "isnan d = (case d of NaN \<Rightarrow> True | PInf \<Rightarrow> False | NInf \<Rightarrow> False | Val v \<Rightarrow> False)"

definition isfinite :: "double \<Rightarrow> bool" where
  "isfinite d = (case d of NaN \<Rightarrow> False | PInf \<Rightarrow> False | NInf \<Rightarrow> False | Val v \<Rightarrow> True)"

definition quiet_NaN :: double where
  "quiet_NaN = NaN"

definition signed_inf :: "real \<Rightarrow> double" where
  "signed_inf x = (if 0 < x then PInf else if x < 0 then NInf else NaN)"

fun double_add :: "double \<Rightarrow> double \<Rightarrow> double" where
  "double_add NaN b = NaN"
| "double_add a NaN = NaN"
| "double_add PInf NInf = NaN"
| "double_add NInf PInf = NaN"
| "double_add PInf b = PInf"
| "double_add a PInf = PInf"
| "double_add NInf b = NInf"
| "double_add a NInf = NInf"
| "double_add (Val x) (Val y) = Val (x + y)"

fun double_sub :: "double \<Rightarrow> double \<Rightarrow> double" where
  "double_sub NaN b = NaN"
| "double_sub a NaN = NaN"
| "double_sub PInf PInf = NaN"
| "double_sub NInf NInf = NaN"
| "double_sub PInf b = PInf"
| "double_sub NInf b = NInf"
| "double_sub a PInf = NInf"
| "double_sub a NInf = PInf"
| "double_sub (Val x) (Val y) = Val (x - y)"

fun double_mul :: "double \<Rightarrow> double \<Rightarrow> double" where
  "double_mul NaN b = NaN"
| "double_mul a NaN = NaN"
| "double_mul PInf PInf = PInf"
| "double_mul PInf NInf = NInf"
| "double_mul NInf PInf = NInf"
| "double_mul NInf NInf = PInf"
| "double_mul PInf (Val y) = signed_inf y"
| "double_mul NInf (Val y) = signed_inf (- y)"
| "double_mul (Val x) PInf = signed_inf x"
| "double_mul (Val x) NInf = signed_inf (- x)"
| "double_mul (Val x) (Val y) = Val (x * y)"

fun double_div :: "double \<Rightarrow> double \<Rightarrow> double" where
  "double_div NaN b = NaN"
| "double_div a NaN = NaN"
| "double_div PInf PInf = NaN"
| "double_div PInf NInf = NaN"
| "double_div NInf PInf = NaN"
| "double_div NInf NInf = NaN"
| "double_div PInf (Val y) = (if 0 \<le> y then PInf else NInf)"
| "double_div NInf (Val y) = (if 0 \<le> y then NInf else PInf)"
| "double_div (Val x) PInf = Val 0"
| "double_div (Val x) NInf = Val 0"
| "double_div (Val x) (Val y) = (if y = 0 then signed_inf x else Val (x / y))"

instantiation double :: "{zero, one, plus, minus, times, inverse}"
begin

definition zero_double_def: "0 = Val 0"

definition one_double_def: "1 = Val 1"

definition plus_double_def: "a + b = double_add a b"

definition minus_double_def: "a - b = double_sub a b"

definition times_double_def: "a * b = double_mul a b"

definition divide_double_def: "(a::double) div b = double_div a b"

definition inverse_double_def: "inverse (a::double) = 1 div a"

instance ..

end

definition tf2Sin :: "double \<Rightarrow> double" where
  "tf2Sin a = (case a of NaN \<Rightarrow> NaN | PInf \<Rightarrow> NaN | NInf \<Rightarrow> NaN | Val x \<Rightarrow> Val (sin x))"

definition tf2Cos :: "double \<Rightarrow> double" where
  "tf2Cos a = (case a of NaN \<Rightarrow> NaN | PInf \<Rightarrow> NaN | NInf \<Rightarrow> NaN | Val x \<Rightarrow> Val (cos x))"

subsection \<open>The tf2 operations used by the kinematics\<close>

text \<open>
  tf2 is a library outside the repository. The three operations the controller calls are
  written as tf2's LinearMath headers compute them: \<^verbatim>\<open>Quaternion::setRPY\<close>, the
  \<^verbatim>\<open>Matrix3x3(const Quaternion&)\<close> constructor (which is \<^verbatim>\<open>setRotation\<close>), and the
  product of a matrix with a vector (one dot product per row). A quaternion is
  \<open>(x, y, z, w)\<close>.
\<close>

type_synonym Vector3 = "double \<times> double \<times> double"

type_synonym Quaternion = "double \<times> double \<times> double \<times> double"

type_synonym Matrix3x3 = "Vector3 \<times> Vector3 \<times> Vector3"

definition vec_x :: "Vector3 \<Rightarrow> double" where
  "vec_x v = fst v"

definition vec_y :: "Vector3 \<Rightarrow> double" where
  "vec_y v = fst (snd v)"

definition vec_z :: "Vector3 \<Rightarrow> double" where
  "vec_z v = snd (snd v)"

definition dot :: "Vector3 \<Rightarrow> Vector3 \<Rightarrow> double" where
  "dot a b = vec_x a * vec_x b + vec_y a * vec_y b + vec_z a * vec_z b"

definition setRPY :: "double \<Rightarrow> double \<Rightarrow> double \<Rightarrow> Quaternion" where
  "setRPY roll pitch yaw =
    (let halfYaw = yaw * Val 0.5;
         halfPitch = pitch * Val 0.5;
         halfRoll = roll * Val 0.5;
         cosYaw = tf2Cos halfYaw;
         sinYaw = tf2Sin halfYaw;
         cosPitch = tf2Cos halfPitch;
         sinPitch = tf2Sin halfPitch;
         cosRoll = tf2Cos halfRoll;
         sinRoll = tf2Sin halfRoll
     in (sinRoll * cosPitch * cosYaw - cosRoll * sinPitch * sinYaw,
         cosRoll * sinPitch * cosYaw + sinRoll * cosPitch * sinYaw,
         cosRoll * cosPitch * sinYaw - sinRoll * sinPitch * cosYaw,
         cosRoll * cosPitch * cosYaw + sinRoll * sinPitch * sinYaw))"

definition length2 :: "Quaternion \<Rightarrow> double" where
  "length2 q = (case q of (x, y, z, w) \<Rightarrow> x * x + y * y + z * z + w * w)"

definition setRotation :: "Quaternion \<Rightarrow> Matrix3x3" where
  "setRotation q = (case q of (x, y, z, w) \<Rightarrow>
    (let d = length2 q;
         s = Val 2 / d;
         xs = x * s; ys = y * s; zs = z * s;
         wx = w * xs; wy = w * ys; wz = w * zs;
         xx = x * xs; xy = x * ys; xz = x * zs;
         yy = y * ys; yz = y * zs; zz = z * zs
     in ((1 - (yy + zz), xy - wz, xz + wy),
         (xy + wz, 1 - (xx + zz), yz - wx),
         (xz - wy, yz + wx, 1 - (xx + yy)))))"

definition mat_mul_vec :: "Matrix3x3 \<Rightarrow> Vector3 \<Rightarrow> Vector3" where
  "mat_mul_vec m v = (case m of (r0, r1, r2) \<Rightarrow> (dot r0 v, dot r1 v, dot r2 v))"

subsection \<open>Messages, the realtime buffer and the realtime publisher\<close>

text \<open>
  \<^verbatim>\<open>rclcpp::Time\<close> and \<^verbatim>\<open>rclcpp::Duration\<close> are counts of nanoseconds, here
  integers; a header stamp is read as the time it converts to, so the stamp with
  \<^verbatim>\<open>sec == 0 && nanosec == 0\<close> is the time 0. (rclcpp refuses to convert a stamp with
  negative seconds and to subtract times of different clocks; such inputs are not
  modelled.) Each call of \<^verbatim>\<open>get_node()->now()\<close> is an argument of the function that
  makes it.
\<close>

record ControllerReferenceMsg =
  header_stamp :: int
  twist_linear_x :: double
  twist_linear_y :: double
  twist_linear_z :: double
  twist_angular_x :: double
  twist_angular_y :: double
  twist_angular_z :: double

text \<open>
  \<^verbatim>\<open>realtime_tools::RealtimeBuffer<std::shared_ptr<ControllerReferenceMsg>>\<close>: two slots
  and a flag. A slot holds a shared pointer, \<open>None\<close> being the null pointer a fresh buffer
  starts with. Every message written comes from its own allocation, so no two slots share
  a message and a slot is modelled by the value it points to. The model is sequential:
  the reader's \<^verbatim>\<open>try_lock\<close> succeeds, since no writer is inside
  \<^verbatim>\<open>writeFromNonRT\<close> at that moment.
\<close>

record RealtimeBuffer =
  realtime_data :: "ControllerReferenceMsg option"
  non_realtime_data :: "ControllerReferenceMsg option"
  new_data_available :: bool

definition readFromRT :: "RealtimeBuffer \<Rightarrow> RealtimeBuffer" where
  "readFromRT b =
    (if new_data_available b
     then b\<lparr>realtime_data := non_realtime_data b,
            non_realtime_data := realtime_data b,
            new_data_available := False\<rparr>
     else b)"

definition writeFromNonRT :: "RealtimeBuffer \<Rightarrow> ControllerReferenceMsg \<Rightarrow> RealtimeBuffer" where
  "writeFromNonRT b data = b\<lparr>non_realtime_data := Some data, new_data_available := True\<rparr>"

record ControllerStateMsg =
  state_header_stamp :: int
  front_left_wheel_velocity :: double
  front_right_wheel_velocity :: double
  back_right_wheel_velocity :: double
  back_left_wheel_velocity :: double
  reference_velocity_linear_x :: double
  reference_velocity_linear_y :: double
  reference_velocity_angular_z :: double

datatype turn_t = REALTIME | NON_REALTIME | LOOP_NOT_STARTED

record RealtimePublisher =
  turn :: turn_t
  msg :: ControllerStateMsg

definition trylock :: "RealtimePublisher \<Rightarrow> bool" where
  "trylock p = (turn p = REALTIME)"

definition unlockAndPublish :: "RealtimePublisher \<Rightarrow> RealtimePublisher" where
  "unlockAndPublish p = p\<lparr>turn := NON_REALTIME\<rparr>"

subsection \<open>The controller\<close>

text \<open>
  The parameter struct is generated at build time and is not among the sources; its fields
  here are the ones the code reads, named by their access path.
\<close>

record Params =
  kinematics_base_frame_offset_x :: double
  kinematics_base_frame_offset_y :: double
  kinematics_base_frame_offset_theta :: double
  kinematics_wheels_radius :: double
  kinematics_sum_of_robot_center_projection_on_X_Y_axis :: double

datatype return_type = OK | ERROR

datatype CallbackReturn = SUCCESS | FAILURE | CALLBACK_ERROR

definition NR_CMD_ITFS :: nat where
  "NR_CMD_ITFS = 4"

definition NR_REF_ITFS :: nat where
  "NR_REF_ITFS = 3"

definition FRONT_LEFT :: nat where
  "FRONT_LEFT = 0"

definition FRONT_RIGHT :: nat where
  "FRONT_RIGHT = 1"

definition REAR_RIGHT :: nat where
  "REAR_RIGHT = 2"

definition REAR_LEFT :: nat where
  "REAR_LEFT = 3"

text \<open>
  The members of \<^verbatim>\<open>MecanumDriveController\<close> that the reference pipeline reads or writes
  (a trailing underscore of a member's name is dropped). \<open>command_interfaces\<close> and
  \<open>state_interfaces\<close> hold the values behind the loaned hardware interfaces.
\<close>

record MecanumDriveController =
  params :: Params
  input_ref :: RealtimeBuffer
  ref_timeout :: int
  reference_interfaces :: "double list"
  command_interfaces :: "double list"
  state_interfaces :: "double list"
  controller_state_publisher :: RealtimePublisher
  velocity_in_center_frame_linear_x :: double
  velocity_in_center_frame_linear_y :: double
  velocity_in_center_frame_angular_z :: double

text \<open>
  \<^verbatim>\<open>rclcpp::Duration::from_seconds\<close> scales seconds to nanoseconds and converts to
  a 64-bit integer, which truncates toward zero.
\<close>

definition from_seconds :: "real \<Rightarrow> int" where
  "from_seconds seconds =
    (let ns = seconds * 1000000000 in if 0 \<le> ns then \<lfloor>ns\<rfloor> else \<lceil>ns\<rceil>)"

definition reset_controller_reference_msg ::
  "ControllerReferenceMsg \<Rightarrow> int \<Rightarrow> ControllerReferenceMsg" where
  "reset_controller_reference_msg m now =
    m\<lparr>header_stamp := now,
      twist_linear_x := quiet_NaN,
      twist_linear_y := quiet_NaN,
      twist_linear_z := quiet_NaN,
      twist_angular_x := quiet_NaN,
      twist_angular_y := quiet_NaN,
      twist_angular_z := quiet_NaN\<rparr>"

definition is_msg_valid :: "ControllerReferenceMsg \<Rightarrow> bool" where
  "is_msg_valid m =
    (\<not> isnan (twist_linear_x m) \<and> \<not> isnan (twist_linear_y m) \<and> \<not> isnan (twist_angular_z m))"

text \<open>
  \<^verbatim>\<open>on_activate\<close> resets the message that \<^verbatim>\<open>readFromRT\<close> points to. Dereferencing a
  null slot is undefined behaviour: the result \<open>None\<close>.
\<close>

definition on_activate ::
  "int \<Rightarrow> MecanumDriveController \<Rightarrow> (CallbackReturn \<times> MecanumDriveController) option" where
  "on_activate now s =
    (let b = readFromRT (input_ref s)
     in case realtime_data b of
          None \<Rightarrow> None
        | Some m \<Rightarrow>
            Some (SUCCESS,
                  s\<lparr>input_ref := b\<lparr>realtime_data := Some (reset_controller_reference_msg m now)\<rparr>\<rparr>))"

text \<open>
  \<^verbatim>\<open>update_reference_from_subscribers\<close>: \<open>current_ref\<close> is a copy of the shared
  pointer in the realtime slot, so an assignment through it changes the buffered message.
\<close>

definition update_reference_from_subscribers ::
  "int \<Rightarrow> int \<Rightarrow> MecanumDriveController \<Rightarrow> (return_type \<times> MecanumDriveController) option" where
  "update_reference_from_subscribers time period s =
    (let b = readFromRT (input_ref s)
     in case realtime_data b of
          None \<Rightarrow> None
        | Some current_ref \<Rightarrow>
            (let age_of_last_command = time - header_stamp current_ref;
                 is_msg_ok = is_msg_valid current_ref;
                 s1 = s\<lparr>input_ref := b\<rparr>
             in if \<not> is_msg_ok then Some (OK, s1)
                else if age_of_last_command \<le> ref_timeout s then
                  Some (OK, s1\<lparr>reference_interfaces :=
                    (reference_interfaces s1)
                      [0 := twist_linear_x current_ref,
                       1 := twist_linear_y current_ref,
                       2 := twist_angular_z current_ref]\<rparr>)
                else if ref_timeout s = from_seconds 0 then
                  Some (OK, s1\<lparr>reference_interfaces :=
                    (reference_interfaces s1)
                      [0 := twist_linear_x current_ref,
                       1 := twist_linear_y current_ref,
                       2 := twist_angular_z current_ref],
                    input_ref := b\<lparr>realtime_data := Some (current_ref
                      \<lparr>twist_linear_x := quiet_NaN,
                       twist_linear_y := quiet_NaN,
                       twist_angular_z := quiet_NaN\<rparr>)\<rparr>\<rparr>)
                else
                  Some (OK, s1\<lparr>reference_interfaces :=
                    (reference_interfaces s1)[0 := 0, 1 := 0, 2 := 0],
                    input_ref := b\<lparr>realtime_data := Some (current_ref
                      \<lparr>twist_linear_x := quiet_NaN,
                       twist_linear_y := quiet_NaN,
                       twist_angular_z := quiet_NaN\<rparr>)\<rparr>\<rparr>)))"

text \<open>
  \<^verbatim>\<open>update_and_write_commands\<close> in its three blocks: the kinematics (or the zero
  fallback), the telemetry under \<^verbatim>\<open>trylock\<close>, and the reset of the reference
  interfaces.
\<close>

definition write_wheel_commands :: "MecanumDriveController \<Rightarrow> MecanumDriveController" where
  "write_wheel_commands s =
    (let r = reference_interfaces s
     in if \<not> isnan (r ! 0) \<and> \<not> isnan (r ! 1) \<and> \<not> isnan (r ! 2) then
          (let quaternion = setRPY 0 0 (kinematics_base_frame_offset_theta (params s));
               rotation_from_base_to_center = setRotation quaternion;
               velocity_in_base_frame_w_r_t_center_frame =
                 mat_mul_vec rotation_from_base_to_center (r ! 0, r ! 1, 0);
               linear_trans_from_base_to_center =
                 (kinematics_base_frame_offset_x (params s),
                  kinematics_base_frame_offset_y (params s), 0);
               cx = vec_x velocity_in_base_frame_w_r_t_center_frame
                      + vec_y linear_trans_from_base_to_center * r ! 2;
               cy = vec_y velocity_in_base_frame_w_r_t_center_frame
                      - vec_x linear_trans_from_base_to_center * r ! 2;
               cz = r ! 2;
               radius = kinematics_wheels_radius (params s);
               k = kinematics_sum_of_robot_center_projection_on_X_Y_axis (params s);
               wheel_front_left_vel = 1 / radius * (cx - cy - k * cz);
               wheel_front_right_vel = 1 / radius * (cx + cy + k * cz);
               wheel_rear_right_vel = 1 / radius * (cx - cy + k * cz);
               wheel_rear_left_vel = 1 / radius * (cx + cy - k * cz)
           in s\<lparr>velocity_in_center_frame_linear_x := cx,
                velocity_in_center_frame_linear_y := cy,
                velocity_in_center_frame_angular_z := cz,
                command_interfaces :=
                  (command_interfaces s)
                    [FRONT_LEFT := wheel_front_left_vel,
                     FRONT_RIGHT := wheel_front_right_vel,
                     REAR_RIGHT := wheel_rear_right_vel,
                     REAR_LEFT := wheel_rear_left_vel]\<rparr>)
        else
          s\<lparr>command_interfaces :=
              (command_interfaces s)
                [FRONT_LEFT := 0, FRONT_RIGHT := 0, REAR_RIGHT := 0, REAR_LEFT := 0]\<rparr>)"

definition publish_controller_state ::
  "int \<Rightarrow> MecanumDriveController \<Rightarrow> MecanumDriveController" where
  "publish_controller_state now s =
    (let p = controller_state_publisher s
     in if trylock p then
          s\<lparr>controller_state_publisher := unlockAndPublish (p\<lparr>msg := (msg p)
            \<lparr>state_header_stamp := now,
             front_left_wheel_velocity := state_interfaces s ! FRONT_LEFT,
             front_right_wheel_velocity := state_interfaces s ! FRONT_RIGHT,
             back_right_wheel_velocity := state_interfaces s ! REAR_RIGHT,
             back_left_wheel_velocity := state_interfaces s ! REAR_LEFT,
             reference_velocity_linear_x := reference_interfaces s ! 0,
             reference_velocity_linear_y := reference_interfaces s ! 1,
             reference_velocity_angular_z := reference_interfaces s ! 2\<rparr>\<rparr>)\<rparr>
        else s)"

definition reset_reference_interfaces :: "MecanumDriveController \<Rightarrow> MecanumDriveController" where
  "reset_reference_interfaces s =
    s\<lparr>reference_interfaces :=
        (reference_interfaces s)[0 := quiet_NaN, 1 := quiet_NaN, 2 := quiet_NaN]\<rparr>"

definition update_and_write_commands ::
  "int \<Rightarrow> int \<Rightarrow> int \<Rightarrow> MecanumDriveController \<Rightarrow> return_type \<times> MecanumDriveController" where
  "update_and_write_commands time period now s =
    (OK, reset_reference_interfaces (publish_controller_state now (write_wheel_commands s)))"

text \<open>
  \<^verbatim>\<open>reference_callback\<close> reads the node's clock up to three times: \<open>now_stamp\<close> for a
  missing stamp, \<open>now_age\<close> for the age, \<open>now_reset\<close> inside
  \<^verbatim>\<open>reset_controller_reference_msg\<close>. It returns the message as the callback leaves it,
  with the controller.
\<close>

definition reference_callback ::
  "int \<Rightarrow> int \<Rightarrow> int \<Rightarrow> ControllerReferenceMsg \<Rightarrow> MecanumDriveController
     \<Rightarrow> ControllerReferenceMsg \<times> MecanumDriveController" where
  "reference_callback now_stamp now_age now_reset m s =
    (let m1 = (if header_stamp m = 0 then m\<lparr>header_stamp := now_stamp\<rparr> else m);
         age_of_last_command = now_age - header_stamp m1
     in if ref_timeout s = from_seconds 0 \<or> age_of_last_command \<le> ref_timeout s
        then (m1, s\<lparr>input_ref := writeFromNonRT (input_ref s) m1\<rparr>)
        else (reset_controller_reference_msg m1 now_reset, s))"

definition resize :: "nat \<Rightarrow> 'a \<Rightarrow> 'a list \<Rightarrow> 'a list" where
  "resize n v xs = take n xs @ replicate (n - length xs) v"

definition on_export_reference_interfaces :: "MecanumDriveController \<Rightarrow> MecanumDriveController" where
  "on_export_reference_interfaces s =
    s\<lparr>reference_interfaces := resize NR_REF_ITFS quiet_NaN (reference_interfaces s)\<rparr>"

subsection \<open>What the realtime side sees, and concrete controllers\<close>

text \<open>
  The buffered command is the message the next \<^verbatim>\<open>readFromRT\<close> returns a pointer to.
\<close>

definition buffered_command :: "RealtimeBuffer \<Rightarrow> ControllerReferenceMsg option" where
  "buffered_command b = realtime_data (readFromRT b)"

text \<open>
  Concrete values on which the theorems below are run: a command with a stamp and the
  three components the controller reads, a buffer as its constructor leaves it, and a
  controller with given geometry, timeout, buffer and reference interfaces, whose four
  command interfaces still hold NaN and whose publisher is free.
\<close>

definition twist_stamped :: "int \<Rightarrow> double \<Rightarrow> double \<Rightarrow> double \<Rightarrow> ControllerReferenceMsg" where
  "twist_stamped stamp lx ly az =
    \<lparr>header_stamp = stamp, twist_linear_x = lx, twist_linear_y = ly, twist_linear_z = 0,
     twist_angular_x = 0, twist_angular_y = 0, twist_angular_z = az\<rparr>"

definition fresh_buffer :: RealtimeBuffer where
  "fresh_buffer = \<lparr>realtime_data = None, non_realtime_data = None, new_data_available = False\<rparr>"

definition test_controller ::
  "double \<Rightarrow> double \<Rightarrow> double \<Rightarrow> double \<Rightarrow> double \<Rightarrow> int \<Rightarrow> RealtimeBuffer \<Rightarrow> double list
     \<Rightarrow> MecanumDriveController" where
  "test_controller off_x off_y theta radius k timeout buf refs =
    \<lparr>params = \<lparr>kinematics_base_frame_offset_x = off_x,
                kinematics_base_frame_offset_y = off_y,
                kinematics_base_frame_offset_theta = theta,
                kinematics_wheels_radius = radius,
                kinematics_sum_of_robot_center_projection_on_X_Y_axis = k\<rparr>,
     input_ref = buf,
     ref_timeout = timeout,
     reference_interfaces = refs,
     command_interfaces = [NaN, NaN, NaN, NaN],
     state_interfaces = [0, 0, 0, 0],
     controller_state_publisher =
       \<lparr>turn = REALTIME,
        msg = \<lparr>state_header_stamp = 0,
               front_left_wheel_velocity = 0, front_right_wheel_velocity = 0,
               back_right_wheel_velocity = 0, back_left_wheel_velocity = 0,
               reference_velocity_linear_x = 0, reference_velocity_linear_y = 0,
               reference_velocity_angular_z = 0\<rparr>\<rparr>,
     velocity_in_center_frame_linear_x = 0,
     velocity_in_center_frame_linear_y = 0,
     velocity_in_center_frame_angular_z = 0\<rparr>"

text \<open>
  A controller whose buffer holds the stop sentinel that \<^verbatim>\<open>on_configure\<close> writes with
  \<^verbatim>\<open>writeFromNonRT\<close>, with a given timeout.
\<close>

definition timeout_controller :: "int \<Rightarrow> MecanumDriveController" where
  "timeout_controller timeout =
     test_controller 0 0 0 (Val 1) (Val 1) timeout
       (writeFromNonRT fresh_buffer (reset_controller_reference_msg (twist_stamped 0 0 0 0) 1))
       [NaN, NaN, NaN]"

text \<open>Timeout 5 ns, a valid command stamped 10 in the buffer.\<close>

definition stale_controller :: MecanumDriveController where
  "stale_controller =
     test_controller 0 0 0 1 0 5
       (writeFromNonRT fresh_buffer (twist_stamped 10 (Val 1) (Val 2) (Val 3))) [NaN, NaN, NaN]"

text \<open>A command with a NaN component in the buffer, reference interfaces \<open>4, 5, 6\<close>.\<close>

definition idle_controller :: MecanumDriveController where
  "idle_controller =
     test_controller 0 0 0 1 0 5
       (writeFromNonRT fresh_buffer (twist_stamped 10 (Val 1) NaN (Val 3)))
       [Val 4, Val 5, Val 6]"

text \<open>Timeout 0, the valid command \<open>(1, 0, 0)\<close> stamped 10 in the buffer.\<close>

definition zero_timeout_controller :: MecanumDriveController where
  "zero_timeout_controller =
     test_controller 0 0 0 (Val 1) (Val 1) 0
       (writeFromNonRT fresh_buffer (twist_stamped 10 (Val 1) (Val 0) (Val 0))) [NaN, NaN, NaN]"

text \<open>
  \<open>zero_timeout_controller\<close> after one call of
  \<^verbatim>\<open>update_reference_from_subscribers\<close> at time 10.
\<close>

definition accepted_once :: MecanumDriveController where
  "accepted_once =
     zero_timeout_controller
       \<lparr>input_ref := readFromRT (input_ref zero_timeout_controller),
        reference_interfaces := [Val 1, Val 0, Val 0]\<rparr>"

definition nan_reference_controller :: MecanumDriveController where
  "nan_reference_controller =
     test_controller 0 0 0 (Val 1) (Val 1) 0 fresh_buffer [Val 1, NaN, Val 0]"

definition forward_controller :: MecanumDriveController where
  "forward_controller =
     test_controller 0 0 0 (Val 1) (Val 0) 0 fresh_buffer [Val 1, Val 0, Val 0]"

definition turning_controller :: MecanumDriveController where
  "turning_controller =
     test_controller 0 0 0 (Val 1) (Val 1) 0 fresh_buffer [Val 0, Val 0, Val 1]"

definition offset_controller :: MecanumDriveController where
  "offset_controller =
     test_controller (Val 2) (Val 3) (Val (pi / 2)) (Val 1) (Val 1) 0 fresh_buffer
       [Val 1, Val 0, Val 1]"

definition aligned_controller :: MecanumDriveController where
  "aligned_controller =
     test_controller (Val 0) (Val 0) (Val 0) (Val 1) (Val 1) 0 fresh_buffer
       [Val 1, Val 2, Val 3]"

text \<open>No rotation, no offset, and the reference twist \<open>(\<infinity>, 0, 0)\<close>.\<close>

definition infinite_twist_controller :: MecanumDriveController where
  "infinite_twist_controller =
     test_controller (Val 0) (Val 0) (Val 0) (Val 1) (Val 1) 0 fresh_buffer
       [PInf, Val 0, Val 0]"

text \<open>A controller whose publisher has handed its message over and is not free.\<close>

definition busy_publisher_controller :: MecanumDriveController where
  "busy_publisher_controller =
     (test_controller 0 0 0 (Val 1) (Val 1) 0 fresh_buffer [Val 1, Val 2, Val 3])
       \<lparr>controller_state_publisher :=
          unlockAndPublish (controller_state_publisher
            (test_controller 0 0 0 (Val 1) (Val 1) 0 fresh_buffer [Val 1, Val 2, Val 3]))\<rparr>"

text \<open>
  A configured controller that received the command \<open>(1, 2, 3)\<close> through
  \<^verbatim>\<open>reference_callback\<close> at time 3, before any activation.
\<close>

definition early_command_controller :: MecanumDriveController where
  "early_command_controller =
     snd (reference_callback 3 3 3 (twist_stamped 3 (Val 1) (Val 2) (Val 3)) (timeout_controller 5))"

section \<open>Basic facts\<close>

subsection \<open>Double arithmetic\<close>

lemma isnan_simps [simp]:
  "isnan NaN" "\<not> isnan (Val v)" "\<not> isnan PInf" "\<not> isnan NInf" "isnan quiet_NaN"
  by (simp_all add: isnan_def quiet_NaN_def)

lemma isfinite_simps [simp]:
  "\<not> isfinite NaN" "isfinite (Val v)" "\<not> isfinite PInf" "\<not> isfinite NInf"
  by (simp_all add: isfinite_def)

lemma isfinite_iff: "isfinite d = (\<exists>v. d = Val v)"
  by (cases d) simp_all

lemma from_seconds_0 [simp]: "from_seconds 0 = 0"
  by (simp add: from_seconds_def)

lemma double_arith [simp]:
  "Val a + Val b = Val (a + b)" "NaN + d = NaN" "d + NaN = NaN"
  "Val a - Val b = Val (a - b)" "NaN - d = NaN" "d - NaN = NaN"
  "Val a * Val b = Val (a * b)" "NaN * d = NaN" "d * NaN = NaN"
  "Val a / Val b = (if b = 0 then signed_inf a else Val (a / b))" "NaN / d = NaN" "d / NaN = NaN"
  by (cases d; simp add: plus_double_def minus_double_def times_double_def divide_double_def)+

lemma double_inf_arith [simp]:
  "PInf + PInf = PInf" "PInf + NInf = NaN" "NInf + PInf = NaN" "NInf + NInf = NInf"
  "PInf + Val a = PInf" "NInf + Val a = NInf" "Val a + PInf = PInf" "Val a + NInf = NInf"
  "PInf - PInf = NaN" "PInf - NInf = PInf" "NInf - PInf = NInf" "NInf - NInf = NaN"
  "PInf - Val a = PInf" "NInf - Val a = NInf" "Val a - PInf = NInf" "Val a - NInf = PInf"
  "PInf * PInf = PInf" "PInf * NInf = NInf" "NInf * PInf = NInf" "NInf * NInf = PInf"
  "PInf * Val a = signed_inf a" "NInf * Val a = signed_inf (- a)"
  "Val a * PInf = signed_inf a" "Val a * NInf = signed_inf (- a)"
  "PInf / PInf = NaN" "PInf / NInf = NaN" "NInf / PInf = NaN" "NInf / NInf = NaN"
  "PInf / Val a = (if 0 \<le> a then PInf else NInf)" "NInf / Val a = (if 0 \<le> a then NInf else PInf)"
  "Val a / PInf = Val 0" "Val a / NInf = Val 0"
  by (simp_all add: plus_double_def minus_double_def times_double_def divide_double_def)

lemma signed_inf_simps [simp]:
  "0 < x \<Longrightarrow> signed_inf x = PInf" "x < 0 \<Longrightarrow> signed_inf x = NInf" "signed_inf 0 = NaN"
  by (simp_all add: signed_inf_def)

text \<open>The code multiplies by the reciprocal of the radius; on this model that is a division.\<close>

lemma inverse_times: "1 / r * x = x / (r::double)"
  by (cases r; cases x) (auto simp add: one_double_def signed_inf_def)

lemma tf2_trig [simp]:
  "tf2Sin (Val t) = Val (sin t)" "tf2Cos (Val t) = Val (cos t)"
  "tf2Sin NaN = NaN" "tf2Cos NaN = NaN"
  "tf2Sin PInf = NaN" "tf2Cos PInf = NaN"
  "tf2Sin NInf = NaN" "tf2Cos NInf = NaN"
  by (simp_all add: tf2Sin_def tf2Cos_def)

subsection \<open>The yaw quaternion and its rotation matrix\<close>

lemma unit_half_angle: "sin (t / 2) * sin (t / 2) + cos (t / 2) * cos (t / 2) = (1::real)"
  using sin_cos_squared_add3 [of "t / 2"] by (simp add: add.commute)

lemma cos_half_angle: "1 - sin (t / 2) * (sin (t / 2) * 2) = cos (t::real)"
  using cos_double_sin [of "t / 2"] by (simp add: power2_eq_square)

lemma sin_half_angle: "cos (t / 2) * (sin (t / 2) * 2) = sin (t::real)"
  using sin_double [of "t / 2"] by simp

lemma setRPY_yaw:
  "setRPY (Val 0) (Val 0) (Val t) = (Val 0, Val 0, Val (sin (t / 2)), Val (cos (t / 2)))"
  by (simp add: setRPY_def Let_def)

lemma length2_yaw: "length2 (Val 0, Val 0, Val (sin (t / 2)), Val (cos (t / 2))) = Val 1"
  by (simp add: length2_def unit_half_angle)

lemma yaw_rotation:
  "setRotation (setRPY (Val 0) (Val 0) (Val t)) =
    ((Val (cos t), Val (- sin t), Val 0), (Val (sin t), Val (cos t), Val 0), (Val 0, Val 0, Val 1))"
  by (simp add: setRPY_yaw setRotation_def length2_yaw Let_def one_double_def
      cos_half_angle sin_half_angle)

lemma yaw_rotation_NaN:
  "setRotation (setRPY (Val 0) (Val 0) NaN) = ((NaN, NaN, NaN), (NaN, NaN, NaN), (NaN, NaN, NaN))"
  by (simp add: setRPY_def setRotation_def length2_def Let_def)

text \<open>The sine and cosine of an infinite yaw are NaN, and so is the whole matrix.\<close>

lemma yaw_rotation_PInf:
  "setRotation (setRPY (Val 0) (Val 0) PInf) = ((NaN, NaN, NaN), (NaN, NaN, NaN), (NaN, NaN, NaN))"
  by (simp add: setRPY_def setRotation_def length2_def Let_def)

lemma yaw_rotation_NInf:
  "setRotation (setRPY (Val 0) (Val 0) NInf) = ((NaN, NaN, NaN), (NaN, NaN, NaN), (NaN, NaN, NaN))"
  by (simp add: setRPY_def setRotation_def length2_def Let_def)

lemma vec_tuple [simp]: "vec_x (a, b, c) = a" "vec_y (a, b, c) = b" "vec_z (a, b, c) = c"
  by (simp_all add: vec_x_def vec_y_def vec_z_def)

lemma rotate_vector_x:
  "vec_x (mat_mul_vec (setRotation (setRPY 0 0 th)) (vx, vy, 0)) = tf2Cos th * vx - tf2Sin th * vy"
  by (cases th; cases vx; cases vy)
     (auto simp add: yaw_rotation yaw_rotation_NaN yaw_rotation_PInf yaw_rotation_NInf
        mat_mul_vec_def dot_def zero_double_def signed_inf_def)

lemma rotate_vector_y:
  "vec_y (mat_mul_vec (setRotation (setRPY 0 0 th)) (vx, vy, 0)) = tf2Sin th * vx + tf2Cos th * vy"
  by (cases th; cases vx; cases vy)
     (auto simp add: yaw_rotation yaw_rotation_NaN yaw_rotation_PInf yaw_rotation_NInf
        mat_mul_vec_def dot_def zero_double_def signed_inf_def)

subsection \<open>Vectors of interfaces\<close>

lemma list3_update:
  "length xs = 3 \<Longrightarrow> xs[0 := a, Suc 0 := b, 2 := c] = [a, b, c]"
  by (cases xs; cases "tl xs"; cases "tl (tl xs)") auto

lemma list4_update:
  "length xs = 4 \<Longrightarrow> xs[0 := a, Suc 0 := b, 2 := c, 3 := d] = [a, b, c, d]"
  by (cases xs; cases "tl xs"; cases "tl (tl xs)"; cases "tl (tl (tl xs))") auto

lemmas wheel_index_defs = FRONT_LEFT_def FRONT_RIGHT_def REAR_RIGHT_def REAR_LEFT_def

text \<open>\<^verbatim>\<open>on_export_reference_interfaces\<close> gives the vector its three slots.\<close>

lemma on_export_reference_interfaces_length:
  "length (reference_interfaces (on_export_reference_interfaces s)) = NR_REF_ITFS"
  by (simp add: on_export_reference_interfaces_def resize_def)

lemma on_export_reference_interfaces_fresh:
  "reference_interfaces s = [] \<Longrightarrow>
     reference_interfaces (on_export_reference_interfaces s) = [NaN, NaN, NaN]"
  by (simp add: on_export_reference_interfaces_def resize_def NR_REF_ITFS_def quiet_NaN_def
      numeral_3_eq_3)

subsection \<open>The realtime buffer\<close>

lemma buffered_command_write: "buffered_command (writeFromNonRT b m) = Some m"
  by (simp add: buffered_command_def readFromRT_def writeFromNonRT_def)

lemma readFromRT_idem: "readFromRT (readFromRT b) = readFromRT b"
  by (simp add: readFromRT_def)

lemma buffered_command_read: "buffered_command (readFromRT b) = buffered_command b"
  by (simp add: buffered_command_def readFromRT_idem)

subsection \<open>The blocks of \<^verbatim>\<open>update_and_write_commands\<close>\<close>

lemma publish_controller_state_frame:
  "command_interfaces (publish_controller_state now s) = command_interfaces s"
  "reference_interfaces (publish_controller_state now s) = reference_interfaces s"
  "input_ref (publish_controller_state now s) = input_ref s"
  "velocity_in_center_frame_linear_x (publish_controller_state now s)
     = velocity_in_center_frame_linear_x s"
  "velocity_in_center_frame_linear_y (publish_controller_state now s)
     = velocity_in_center_frame_linear_y s"
  "velocity_in_center_frame_angular_z (publish_controller_state now s)
     = velocity_in_center_frame_angular_z s"
  "params (publish_controller_state now s) = params s"
  by (simp_all add: publish_controller_state_def Let_def)

lemma reset_reference_interfaces_frame:
  "command_interfaces (reset_reference_interfaces s) = command_interfaces s"
  "input_ref (reset_reference_interfaces s) = input_ref s"
  "velocity_in_center_frame_linear_x (reset_reference_interfaces s)
     = velocity_in_center_frame_linear_x s"
  "velocity_in_center_frame_linear_y (reset_reference_interfaces s)
     = velocity_in_center_frame_linear_y s"
  "velocity_in_center_frame_angular_z (reset_reference_interfaces s)
     = velocity_in_center_frame_angular_z s"
  "params (reset_reference_interfaces s) = params s"
  by (simp_all add: reset_reference_interfaces_def)

lemma write_wheel_commands_frame:
  "reference_interfaces (write_wheel_commands s) = reference_interfaces s"
  "input_ref (write_wheel_commands s) = input_ref s"
  "params (write_wheel_commands s) = params s"
  by (simp_all add: write_wheel_commands_def Let_def)

lemma update_and_write_commands_input_ref:
  "input_ref (snd (update_and_write_commands time period now s)) = input_ref s"
  by (simp add: update_and_write_commands_def reset_reference_interfaces_frame
      publish_controller_state_frame write_wheel_commands_frame)

lemma update_and_write_commands_center:
  "velocity_in_center_frame_linear_x (snd (update_and_write_commands time period now s))
     = velocity_in_center_frame_linear_x (write_wheel_commands s)"
  "velocity_in_center_frame_linear_y (snd (update_and_write_commands time period now s))
     = velocity_in_center_frame_linear_y (write_wheel_commands s)"
  "velocity_in_center_frame_angular_z (snd (update_and_write_commands time period now s))
     = velocity_in_center_frame_angular_z (write_wheel_commands s)"
  "command_interfaces (snd (update_and_write_commands time period now s))
     = command_interfaces (write_wheel_commands s)"
  by (simp_all add: update_and_write_commands_def reset_reference_interfaces_frame
      publish_controller_state_frame)

lemma update_and_write_commands_resets:
  assumes "length (reference_interfaces s) = NR_REF_ITFS"
  shows "reference_interfaces (snd (update_and_write_commands time period now s))
           = [NaN, NaN, NaN]"
  using assms
  by (simp add: update_and_write_commands_def reset_reference_interfaces_def
      publish_controller_state_frame write_wheel_commands_frame list3_update NR_REF_ITFS_def
      quiet_NaN_def)

lemma write_wheel_commands_nan:
  assumes "length (command_interfaces s) = NR_CMD_ITFS"
    and "isnan (reference_interfaces s ! 0) \<or> isnan (reference_interfaces s ! 1)
         \<or> isnan (reference_interfaces s ! 2)"
  shows "command_interfaces (write_wheel_commands s) = [Val 0, Val 0, Val 0, Val 0]"
  using assms
  by (auto simp add: write_wheel_commands_def Let_def wheel_index_defs NR_CMD_ITFS_def
      list4_update zero_double_def)

lemma write_wheel_commands_center:
  assumes "\<not> isnan (reference_interfaces s ! 0)" "\<not> isnan (reference_interfaces s ! 1)"
    "\<not> isnan (reference_interfaces s ! 2)"
  shows "velocity_in_center_frame_linear_x (write_wheel_commands s) =
      tf2Cos (kinematics_base_frame_offset_theta (params s)) * reference_interfaces s ! 0
      - tf2Sin (kinematics_base_frame_offset_theta (params s)) * reference_interfaces s ! 1
      + kinematics_base_frame_offset_y (params s) * reference_interfaces s ! 2"
   and "velocity_in_center_frame_linear_y (write_wheel_commands s) =
      tf2Sin (kinematics_base_frame_offset_theta (params s)) * reference_interfaces s ! 0
      + tf2Cos (kinematics_base_frame_offset_theta (params s)) * reference_interfaces s ! 1
      - kinematics_base_frame_offset_x (params s) * reference_interfaces s ! 2"
   and "velocity_in_center_frame_angular_z (write_wheel_commands s) = reference_interfaces s ! 2"
  using assms
  by (simp_all add: write_wheel_commands_def Let_def rotate_vector_x rotate_vector_y)

lemma write_wheel_commands_wheels:
  assumes "length (command_interfaces s) = NR_CMD_ITFS"
    and "\<not> isnan (reference_interfaces s ! 0)" "\<not> isnan (reference_interfaces s ! 1)"
    "\<not> isnan (reference_interfaces s ! 2)"
  shows "command_interfaces (write_wheel_commands s) =
    (let cx = velocity_in_center_frame_linear_x (write_wheel_commands s);
         cy = velocity_in_center_frame_linear_y (write_wheel_commands s);
         wz = velocity_in_center_frame_angular_z (write_wheel_commands s);
         r = kinematics_wheels_radius (params s);
         k = kinematics_sum_of_robot_center_projection_on_X_Y_axis (params s)
     in [(cx - cy - k * wz) / r, (cx + cy + k * wz) / r,
         (cx - cy + k * wz) / r, (cx + cy - k * wz) / r])"
  using assms
  by (simp add: write_wheel_commands_def Let_def wheel_index_defs NR_CMD_ITFS_def
      list4_update inverse_times)

subsection \<open>The concrete controllers\<close>

lemma test_controller_fields [simp]:
  "reference_interfaces (test_controller ox oy th r k t b refs) = refs"
  "command_interfaces (test_controller ox oy th r k t b refs) = [NaN, NaN, NaN, NaN]"
  "input_ref (test_controller ox oy th r k t b refs) = b"
  "ref_timeout (test_controller ox oy th r k t b refs) = t"
  "kinematics_base_frame_offset_x (params (test_controller ox oy th r k t b refs)) = ox"
  "kinematics_base_frame_offset_y (params (test_controller ox oy th r k t b refs)) = oy"
  "kinematics_base_frame_offset_theta (params (test_controller ox oy th r k t b refs)) = th"
  "kinematics_wheels_radius (params (test_controller ox oy th r k t b refs)) = r"
  "kinematics_sum_of_robot_center_projection_on_X_Y_axis
     (params (test_controller ox oy th r k t b refs)) = k"
  by (simp_all add: test_controller_def)

section \<open>The claims\<close>

subsection \<open>C1: zero timeout\<close>

text \<open>
  With a zero timeout a valid command is passed into the reference slots at every age:
  both the in-time branch and the zero-timeout branch copy its three components.
\<close>

lemma zero_timeout_passes:
  assumes "buffered_command (input_ref s) = Some cmd"
    and "is_msg_valid cmd"
    and "ref_timeout s = 0"
    and "length (reference_interfaces s) = NR_REF_ITFS"
  shows "\<exists>s'. update_reference_from_subscribers time period s = Some (OK, s')
           \<and> reference_interfaces s' =
               [twist_linear_x cmd, twist_linear_y cmd, twist_angular_z cmd]"
  using assms
  by (simp add: update_reference_from_subscribers_def buffered_command_def Let_def
      list3_update NR_REF_ITFS_def)

text \<open>
  The in-time branch is tested first and leaves the buffered message as it is, whatever the
  timeout: a command whose age is at most the timeout stays in the buffer, valid.
\<close>

lemma in_time_keeps_command:
  assumes "buffered_command (input_ref s) = Some cmd"
    and "is_msg_valid cmd"
    and "time - header_stamp cmd \<le> ref_timeout s"
  shows "\<exists>s'. update_reference_from_subscribers time period s = Some (OK, s')
           \<and> buffered_command (input_ref s') = Some cmd"
  using assms
  by (simp add: update_reference_from_subscribers_def buffered_command_def Let_def
      readFromRT_idem)

text \<open>
  Claim C1 says that with a zero timeout a valid command is passed once and then marked
  consumed, so that it is not accepted again without a new publish. The code does so only
  when the age is positive. Here the timeout is 0 and the command \<open>(1, 0, 0)\<close> is stamped
  10. The cycle at time 10 (age 0) takes the in-time branch: it passes the command and
  leaves it in the buffer. \<^verbatim>\<open>update_and_write_commands\<close> then resets the reference
  slots to NaN, nothing is published, and the cycle at time 11 passes the same command
  again.
\<close>

theorem C1_zero_timeout_in_time_command_accepted_twice:
  "update_reference_from_subscribers 10 1 zero_timeout_controller = Some (OK, accepted_once)
   \<and> reference_interfaces accepted_once = [Val 1, Val 0, Val 0]
   \<and> buffered_command (input_ref accepted_once) = Some (twist_stamped 10 (Val 1) (Val 0) (Val 0))
   \<and> reference_interfaces (snd (update_and_write_commands 10 1 10 accepted_once))
        = [NaN, NaN, NaN]
   \<and> map_option (reference_interfaces \<circ> snd)
        (update_reference_from_subscribers 11 1
           (snd (update_and_write_commands 10 1 10 accepted_once)))
        = Some [Val 1, Val 0, Val 0]"
proof -
  let ?c = "twist_stamped 10 (Val 1) (Val 0) (Val 0)"
  have b: "readFromRT (input_ref zero_timeout_controller)
             = \<lparr>realtime_data = Some ?c, non_realtime_data = None, new_data_available = False\<rparr>"
    by (simp add: zero_timeout_controller_def readFromRT_def writeFromNonRT_def fresh_buffer_def)
  have v: "is_msg_valid ?c" "header_stamp ?c = 10"
    "twist_linear_x ?c = Val 1" "twist_linear_y ?c = Val 0" "twist_angular_z ?c = Val 0"
    by (simp_all add: is_msg_valid_def twist_stamped_def)
  have t: "ref_timeout zero_timeout_controller = 0"
    "reference_interfaces zero_timeout_controller = [NaN, NaN, NaN]"
    by (simp_all add: zero_timeout_controller_def)
  have first: "update_reference_from_subscribers 10 1 zero_timeout_controller
                 = Some (OK, accepted_once)"
    by (simp add: update_reference_from_subscribers_def Let_def b v t accepted_once_def)
  have refs: "reference_interfaces accepted_once = [Val 1, Val 0, Val 0]"
    by (simp add: accepted_once_def)
  have kept: "buffered_command (input_ref accepted_once) = Some ?c"
    by (simp add: accepted_once_def buffered_command_def readFromRT_idem) (simp add: b)
  let ?s2 = "snd (update_and_write_commands 10 1 10 accepted_once)"
  have reset: "reference_interfaces ?s2 = [NaN, NaN, NaN]"
    by (rule update_and_write_commands_resets) (simp add: refs NR_REF_ITFS_def)
  have b2: "readFromRT (input_ref ?s2)
             = \<lparr>realtime_data = Some ?c, non_realtime_data = None, new_data_available = False\<rparr>"
    by (simp add: update_and_write_commands_input_ref accepted_once_def readFromRT_idem)
       (simp add: b)
  have t2: "ref_timeout ?s2 = 0"
    by (simp add: update_and_write_commands_def reset_reference_interfaces_def
        publish_controller_state_def write_wheel_commands_def Let_def accepted_once_def t)
  have again: "map_option (reference_interfaces \<circ> snd)
      (update_reference_from_subscribers 11 1 ?s2) = Some [Val 1, Val 0, Val 0]"
    by (simp add: update_reference_from_subscribers_def Let_def b2 v t2 reset)
  from first refs kept reset again show ?thesis by simp
qed

subsection \<open>C2: a stale command stops the base\<close>

text \<open>
  Claim C2. The buffered command is valid, the timeout is positive and the age of the
  command exceeds it: \<^verbatim>\<open>update_reference_from_subscribers\<close> returns OK and the three
  reference slots hold the number zero, not NaN.
\<close>

theorem C2_stale_command_writes_zero:
  assumes "buffered_command (input_ref s) = Some cmd"
    and "is_msg_valid cmd"
    and "0 < ref_timeout s"
    and "ref_timeout s < time - header_stamp cmd"
    and "length (reference_interfaces s) = NR_REF_ITFS"
  shows "\<exists>s'. update_reference_from_subscribers time period s = Some (OK, s')
           \<and> reference_interfaces s' = [Val 0, Val 0, Val 0]"
  using assms
  by (simp add: update_reference_from_subscribers_def buffered_command_def Let_def
      list3_update NR_REF_ITFS_def zero_double_def)

theorem C2_witness:
  "buffered_command (input_ref stale_controller) = Some (twist_stamped 10 (Val 1) (Val 2) (Val 3))
   \<and> is_msg_valid (twist_stamped 10 (Val 1) (Val 2) (Val 3))
   \<and> 0 < ref_timeout stale_controller
   \<and> ref_timeout stale_controller < 20 - header_stamp (twist_stamped 10 (Val 1) (Val 2) (Val 3))
   \<and> (\<exists>s'. update_reference_from_subscribers 20 1 stale_controller = Some (OK, s')
           \<and> reference_interfaces s' = [Val 0, Val 0, Val 0])"
proof -
  let ?c = "twist_stamped 10 (Val 1) (Val 2) (Val 3)"
  have h1: "buffered_command (input_ref stale_controller) = Some ?c"
    by (simp add: stale_controller_def buffered_command_write)
  have h2: "is_msg_valid ?c"
    by (simp add: is_msg_valid_def twist_stamped_def)
  have h3: "0 < ref_timeout stale_controller"
    by (simp add: stale_controller_def)
  have h4: "ref_timeout stale_controller < 20 - header_stamp ?c"
    by (simp add: stale_controller_def twist_stamped_def)
  have h5: "length (reference_interfaces stale_controller) = NR_REF_ITFS"
    by (simp add: stale_controller_def NR_REF_ITFS_def)
  from C2_stale_command_writes_zero [OF h1 h2 h3 h4 h5, of 1] h1 h2 h3 h4
  show ?thesis by simp
qed

subsection \<open>C3: an invalid command changes no reference\<close>

text \<open>
  Claim C3. One of the three components the controller reads from the buffered command is
  NaN: \<^verbatim>\<open>update_reference_from_subscribers\<close> returns OK and the reference interfaces
  are what they were before the call.
\<close>

theorem C3_invalid_command_keeps_reference:
  assumes "buffered_command (input_ref s) = Some cmd"
    and "isnan (twist_linear_x cmd) \<or> isnan (twist_linear_y cmd) \<or> isnan (twist_angular_z cmd)"
  shows "\<exists>s'. update_reference_from_subscribers time period s = Some (OK, s')
           \<and> reference_interfaces s' = reference_interfaces s"
  using assms
  by (auto simp add: update_reference_from_subscribers_def buffered_command_def Let_def
      is_msg_valid_def)

theorem C3_witness:
  "buffered_command (input_ref idle_controller) = Some (twist_stamped 10 (Val 1) NaN (Val 3))
   \<and> isnan (twist_linear_y (twist_stamped 10 (Val 1) NaN (Val 3)))
   \<and> (\<exists>s'. update_reference_from_subscribers 11 1 idle_controller = Some (OK, s')
           \<and> reference_interfaces s' = [Val 4, Val 5, Val 6])"
proof -
  let ?c = "twist_stamped 10 (Val 1) NaN (Val 3)"
  have h1: "buffered_command (input_ref idle_controller) = Some ?c"
    by (simp add: idle_controller_def buffered_command_write)
  have h2: "isnan (twist_linear_y ?c)"
    by (simp add: twist_stamped_def)
  then have h2': "isnan (twist_linear_x ?c) \<or> isnan (twist_linear_y ?c)
      \<or> isnan (twist_angular_z ?c)"
    by simp
  have r: "reference_interfaces idle_controller = [Val 4, Val 5, Val 6]"
    by (simp add: idle_controller_def)
  from C3_invalid_command_keeps_reference [OF h1 h2', of 11 1] h1 h2 r
  show ?thesis by simp
qed

subsection \<open>C4: a NaN reference holds the wheels still\<close>

text \<open>
  Claim C4. One of the three reference interfaces is NaN when
  \<^verbatim>\<open>update_and_write_commands\<close> runs: the four command interfaces are set to the number
  zero, so no NaN reaches a wheel.
\<close>

theorem C4_nan_reference_zeroes_wheels:
  assumes "length (reference_interfaces s) = NR_REF_ITFS"
    and "length (command_interfaces s) = NR_CMD_ITFS"
    and "isnan (reference_interfaces s ! 0) \<or> isnan (reference_interfaces s ! 1)
         \<or> isnan (reference_interfaces s ! 2)"
  shows "command_interfaces (snd (update_and_write_commands time period now s))
           = [Val 0, Val 0, Val 0, Val 0]"
  using assms
  by (simp add: update_and_write_commands_center write_wheel_commands_nan)

theorem C4_witness:
  "isnan (reference_interfaces nan_reference_controller ! 1)
   \<and> command_interfaces nan_reference_controller = [NaN, NaN, NaN, NaN]
   \<and> command_interfaces (snd (update_and_write_commands 7 1 7 nan_reference_controller))
        = [Val 0, Val 0, Val 0, Val 0]"
proof -
  have h1: "length (reference_interfaces nan_reference_controller) = NR_REF_ITFS"
    by (simp add: nan_reference_controller_def NR_REF_ITFS_def)
  have h2: "length (command_interfaces nan_reference_controller) = NR_CMD_ITFS"
    by (simp add: nan_reference_controller_def NR_CMD_ITFS_def)
  have h3: "isnan (reference_interfaces nan_reference_controller ! 1)"
    by (simp add: nan_reference_controller_def)
  then have h3': "isnan (reference_interfaces nan_reference_controller ! 0)
      \<or> isnan (reference_interfaces nan_reference_controller ! 1)
      \<or> isnan (reference_interfaces nan_reference_controller ! 2)"
    by simp
  have c: "command_interfaces nan_reference_controller = [NaN, NaN, NaN, NaN]"
    by (simp add: nan_reference_controller_def)
  from C4_nan_reference_zeroes_wheels [OF h1 h2 h3', of 7 1 7] h3 c
  show ?thesis by simp
qed

subsection \<open>C5: the wheel velocities\<close>

text \<open>
  Claim C5. When the three reference interfaces are not NaN,
  \<^verbatim>\<open>update_and_write_commands\<close> writes, from the center-frame twist \<open>(cx, cy, wz)\<close> it
  has computed, the wheel radius \<open>r\<close> and the geometric sum \<open>k\<close>, the velocities
  \<open>(cx - cy - k wz) / r\<close>, \<open>(cx + cy + k wz) / r\<close>, \<open>(cx - cy + k wz) / r\<close> and
  \<open>(cx + cy - k wz) / r\<close> to the command interfaces FRONT_LEFT, FRONT_RIGHT, REAR_RIGHT and
  REAR_LEFT. The twist \<open>(1, 0, 0)\<close> with \<open>r = 1\<close>, \<open>k = 0\<close> gives \<open>(1, 1, 1, 1)\<close>; the twist
  \<open>(0, 0, 1)\<close> with \<open>r = 1\<close>, \<open>k = 1\<close> gives \<open>(-1, 1, 1, -1)\<close>. The arithmetic is that of
  the double model above (exact on numbers, NaN propagating).
\<close>

theorem C5_inverse_kinematics:
  assumes "length (reference_interfaces s) = NR_REF_ITFS"
    and "length (command_interfaces s) = NR_CMD_ITFS"
    and "\<not> isnan (reference_interfaces s ! 0)"
    and "\<not> isnan (reference_interfaces s ! 1)"
    and "\<not> isnan (reference_interfaces s ! 2)"
  shows "(let s' = snd (update_and_write_commands time period now s);
              cx = velocity_in_center_frame_linear_x s';
              cy = velocity_in_center_frame_linear_y s';
              wz = velocity_in_center_frame_angular_z s';
              r = kinematics_wheels_radius (params s);
              k = kinematics_sum_of_robot_center_projection_on_X_Y_axis (params s)
          in command_interfaces s' ! FRONT_LEFT = (cx - cy - k * wz) / r
           \<and> command_interfaces s' ! FRONT_RIGHT = (cx + cy + k * wz) / r
           \<and> command_interfaces s' ! REAR_RIGHT = (cx - cy + k * wz) / r
           \<and> command_interfaces s' ! REAR_LEFT = (cx + cy - k * wz) / r
           \<and> length (command_interfaces s') = NR_CMD_ITFS
           \<and> (cx = Val 1 \<and> cy = Val 0 \<and> wz = Val 0 \<and> r = Val 1 \<and> k = Val 0 \<longrightarrow>
                command_interfaces s' = [Val 1, Val 1, Val 1, Val 1])
           \<and> (cx = Val 0 \<and> cy = Val 0 \<and> wz = Val 1 \<and> r = Val 1 \<and> k = Val 1 \<longrightarrow>
                command_interfaces s' = [Val (- 1), Val 1, Val 1, Val (- 1)]))"
proof -
  let ?w = "write_wheel_commands s"
  have wheels: "command_interfaces ?w =
    (let cx = velocity_in_center_frame_linear_x ?w;
         cy = velocity_in_center_frame_linear_y ?w;
         wz = velocity_in_center_frame_angular_z ?w;
         r = kinematics_wheels_radius (params s);
         k = kinematics_sum_of_robot_center_projection_on_X_Y_axis (params s)
     in [(cx - cy - k * wz) / r, (cx + cy + k * wz) / r,
         (cx - cy + k * wz) / r, (cx + cy - k * wz) / r])"
    using assms(2-5) by (rule write_wheel_commands_wheels)
  show ?thesis
    unfolding Let_def update_and_write_commands_center
    by (subst wheels)+ (simp add: Let_def wheel_index_defs NR_CMD_ITFS_def)
qed

theorem C5_witness:
  "command_interfaces (snd (update_and_write_commands 0 1 0 forward_controller))
     = [Val 1, Val 1, Val 1, Val 1]
   \<and> command_interfaces (snd (update_and_write_commands 0 1 0 turning_controller))
     = [Val (- 1), Val 1, Val 1, Val (- 1)]"
proof -
  have f: "length (reference_interfaces forward_controller) = NR_REF_ITFS"
    "length (command_interfaces forward_controller) = NR_CMD_ITFS"
    "\<not> isnan (reference_interfaces forward_controller ! 0)"
    "\<not> isnan (reference_interfaces forward_controller ! 1)"
    "\<not> isnan (reference_interfaces forward_controller ! 2)"
    by (simp_all add: forward_controller_def NR_REF_ITFS_def NR_CMD_ITFS_def)
  have t: "length (reference_interfaces turning_controller) = NR_REF_ITFS"
    "length (command_interfaces turning_controller) = NR_CMD_ITFS"
    "\<not> isnan (reference_interfaces turning_controller ! 0)"
    "\<not> isnan (reference_interfaces turning_controller ! 1)"
    "\<not> isnan (reference_interfaces turning_controller ! 2)"
    by (simp_all add: turning_controller_def NR_REF_ITFS_def NR_CMD_ITFS_def)
  have fc:
    "velocity_in_center_frame_linear_x (snd (update_and_write_commands 0 1 0 forward_controller))
       = Val 1"
    "velocity_in_center_frame_linear_y (snd (update_and_write_commands 0 1 0 forward_controller))
       = Val 0"
    "velocity_in_center_frame_angular_z (snd (update_and_write_commands 0 1 0 forward_controller))
       = Val 0"
    "kinematics_wheels_radius (params forward_controller) = Val 1"
    "kinematics_sum_of_robot_center_projection_on_X_Y_axis (params forward_controller) = Val 0"
    using f(3-5)
    by (simp_all add: update_and_write_commands_center write_wheel_commands_center)
       (simp_all add: forward_controller_def zero_double_def)
  have tc:
    "velocity_in_center_frame_linear_x (snd (update_and_write_commands 0 1 0 turning_controller))
       = Val 0"
    "velocity_in_center_frame_linear_y (snd (update_and_write_commands 0 1 0 turning_controller))
       = Val 0"
    "velocity_in_center_frame_angular_z (snd (update_and_write_commands 0 1 0 turning_controller))
       = Val 1"
    "kinematics_wheels_radius (params turning_controller) = Val 1"
    "kinematics_sum_of_robot_center_projection_on_X_Y_axis (params turning_controller) = Val 1"
    using t(3-5)
    by (simp_all add: update_and_write_commands_center write_wheel_commands_center)
       (simp_all add: turning_controller_def zero_double_def)
  from C5_inverse_kinematics [OF f, of 0 1 0] C5_inverse_kinematics [OF t, of 0 1 0] fc tc
  show ?thesis by (simp add: Let_def)
qed

subsection \<open>C6: the frame-offset transform\<close>

text \<open>
  Claim C6 says that for every reference twist the transform with \<open>theta = 0\<close> and
  \<open>off_x = off_y = 0\<close> is the identity. The guard of \<^verbatim>\<open>update_and_write_commands\<close> tests
  only for NaN, so the twist \<open>(\<infinity>, 0, 0)\<close> runs the transform. The second row of the
  rotation matrix is \<open>(0, 1, 0)\<close>, its product with the twist contains \<open>0 \<times> \<infinity>\<close>, and the
  stored y component is NaN, not 0.
\<close>

theorem C6_identity_fails_at_infinity:
  "\<not> isnan (reference_interfaces infinite_twist_controller ! 0)
   \<and> \<not> isnan (reference_interfaces infinite_twist_controller ! 1)
   \<and> \<not> isnan (reference_interfaces infinite_twist_controller ! 2)
   \<and> kinematics_base_frame_offset_theta (params infinite_twist_controller) = Val 0
   \<and> kinematics_base_frame_offset_x (params infinite_twist_controller) = Val 0
   \<and> kinematics_base_frame_offset_y (params infinite_twist_controller) = Val 0
   \<and> reference_interfaces infinite_twist_controller = [PInf, Val 0, Val 0]
   \<and> velocity_in_center_frame_linear_x
        (snd (update_and_write_commands 0 1 0 infinite_twist_controller)) = PInf
   \<and> velocity_in_center_frame_linear_y
        (snd (update_and_write_commands 0 1 0 infinite_twist_controller)) = NaN
   \<and> velocity_in_center_frame_angular_z
        (snd (update_and_write_commands 0 1 0 infinite_twist_controller)) = Val 0
   \<and> velocity_in_center_frame_linear_y
        (snd (update_and_write_commands 0 1 0 infinite_twist_controller))
       \<noteq> reference_interfaces infinite_twist_controller ! 1"
proof -
  have g: "\<not> isnan (reference_interfaces infinite_twist_controller ! 0)"
    "\<not> isnan (reference_interfaces infinite_twist_controller ! 1)"
    "\<not> isnan (reference_interfaces infinite_twist_controller ! 2)"
    by (simp_all add: infinite_twist_controller_def)
  have p: "kinematics_base_frame_offset_theta (params infinite_twist_controller) = Val 0"
    "kinematics_base_frame_offset_x (params infinite_twist_controller) = Val 0"
    "kinematics_base_frame_offset_y (params infinite_twist_controller) = Val 0"
    "reference_interfaces infinite_twist_controller = [PInf, Val 0, Val 0]"
    by (simp_all add: infinite_twist_controller_def)
  have c: "velocity_in_center_frame_linear_x
        (snd (update_and_write_commands 0 1 0 infinite_twist_controller)) = PInf"
    "velocity_in_center_frame_linear_y
        (snd (update_and_write_commands 0 1 0 infinite_twist_controller)) = NaN"
    "velocity_in_center_frame_angular_z
        (snd (update_and_write_commands 0 1 0 infinite_twist_controller)) = Val 0"
    using g
    by (simp_all add: update_and_write_commands_center write_wheel_commands_center)
       (simp_all add: p)
  from g p c show ?thesis by simp
qed

text \<open>
  Claim C6 as amended. When the three reference interfaces \<open>(v_x, v_y, w_z)\<close> are not NaN,
  the center-frame twist that \<^verbatim>\<open>update_and_write_commands\<close> stores is \<open>(v_x, v_y)\<close>
  rotated by \<open>theta\<close>, plus \<open>off_y w_z\<close> on the x component and minus \<open>off_x w_z\<close> on the
  y component, with \<open>w_z\<close> unchanged, in the arithmetic of doubles (where \<open>0 \<times> \<infinity>\<close> is NaN
  and rounding is left out). For \<open>theta = 0\<close> and \<open>off_x = off_y = 0\<close> it is \<open>(v_x, v_y, w_z)\<close>
  itself whenever the three components are finite.
\<close>

theorem C6_center_offset_finite:
  assumes "length (reference_interfaces s) = NR_REF_ITFS"
    and "\<not> isnan (reference_interfaces s ! 0)"
    and "\<not> isnan (reference_interfaces s ! 1)"
    and "\<not> isnan (reference_interfaces s ! 2)"
  shows "(let s' = snd (update_and_write_commands time period now s);
              v_x = reference_interfaces s ! 0;
              v_y = reference_interfaces s ! 1;
              w_z = reference_interfaces s ! 2;
              theta = kinematics_base_frame_offset_theta (params s);
              off_x = kinematics_base_frame_offset_x (params s);
              off_y = kinematics_base_frame_offset_y (params s)
          in velocity_in_center_frame_linear_x s'
               = (tf2Cos theta * v_x - tf2Sin theta * v_y) + off_y * w_z
           \<and> velocity_in_center_frame_linear_y s'
               = (tf2Sin theta * v_x + tf2Cos theta * v_y) - off_x * w_z
           \<and> velocity_in_center_frame_angular_z s' = w_z
           \<and> (theta = Val 0 \<and> off_x = Val 0 \<and> off_y = Val 0
                \<and> isfinite v_x \<and> isfinite v_y \<and> isfinite w_z \<longrightarrow>
                velocity_in_center_frame_linear_x s' = v_x
              \<and> velocity_in_center_frame_linear_y s' = v_y
              \<and> velocity_in_center_frame_angular_z s' = w_z))"
  unfolding Let_def update_and_write_commands_center
  using assms(2-4) by (auto simp add: write_wheel_commands_center isfinite_iff)

theorem C6_witness:
  "(let s' = snd (update_and_write_commands 0 1 0 offset_controller)
    in velocity_in_center_frame_linear_x s' = Val 3
     \<and> velocity_in_center_frame_linear_y s' = Val (- 1)
     \<and> velocity_in_center_frame_angular_z s' = Val 1)
   \<and> (let s' = snd (update_and_write_commands 0 1 0 aligned_controller)
      in velocity_in_center_frame_linear_x s' = Val 1
       \<and> velocity_in_center_frame_linear_y s' = Val 2
       \<and> velocity_in_center_frame_angular_z s' = Val 3)"
proof -
  have f: "length (reference_interfaces offset_controller) = NR_REF_ITFS"
    "\<not> isnan (reference_interfaces offset_controller ! 0)"
    "\<not> isnan (reference_interfaces offset_controller ! 1)"
    "\<not> isnan (reference_interfaces offset_controller ! 2)"
    by (simp_all add: offset_controller_def NR_REF_ITFS_def)
  have t: "length (reference_interfaces aligned_controller) = NR_REF_ITFS"
    "\<not> isnan (reference_interfaces aligned_controller ! 0)"
    "\<not> isnan (reference_interfaces aligned_controller ! 1)"
    "\<not> isnan (reference_interfaces aligned_controller ! 2)"
    by (simp_all add: aligned_controller_def NR_REF_ITFS_def)
  have fv: "reference_interfaces offset_controller = [Val 1, Val 0, Val 1]"
    "kinematics_base_frame_offset_theta (params offset_controller) = Val (pi / 2)"
    "kinematics_base_frame_offset_x (params offset_controller) = Val 2"
    "kinematics_base_frame_offset_y (params offset_controller) = Val 3"
    by (simp_all add: offset_controller_def)
  have tv: "reference_interfaces aligned_controller = [Val 1, Val 2, Val 3]"
    "kinematics_base_frame_offset_theta (params aligned_controller) = Val 0"
    "kinematics_base_frame_offset_x (params aligned_controller) = Val 0"
    "kinematics_base_frame_offset_y (params aligned_controller) = Val 0"
    by (simp_all add: aligned_controller_def)
  from C6_center_offset_finite [OF f, of 0 1 0] C6_center_offset_finite [OF t, of 0 1 0]
  show ?thesis by (simp add: Let_def fv tv)
qed

subsection \<open>C7: the reference interfaces are single-use\<close>

text \<open>
  Claim C7. Every call of \<^verbatim>\<open>update_and_write_commands\<close> returns OK and leaves NaN in the
  three reference interfaces, whichever kinematics branch ran and whether or not the
  publisher could be locked.
\<close>

theorem C7_reference_reset_to_nan:
  assumes "length (reference_interfaces s) = NR_REF_ITFS"
  shows "fst (update_and_write_commands time period now s) = OK
         \<and> reference_interfaces (snd (update_and_write_commands time period now s))
           = [NaN, NaN, NaN]"
  using assms
  by (simp add: update_and_write_commands_resets) (simp add: update_and_write_commands_def)

theorem C7_witness:
  "\<not> trylock (controller_state_publisher busy_publisher_controller)
   \<and> trylock (controller_state_publisher nan_reference_controller)
   \<and> reference_interfaces (snd (update_and_write_commands 7 1 7 busy_publisher_controller))
        = [NaN, NaN, NaN]
   \<and> reference_interfaces (snd (update_and_write_commands 7 1 7 nan_reference_controller))
        = [NaN, NaN, NaN]"
proof -
  have h1: "length (reference_interfaces busy_publisher_controller) = NR_REF_ITFS"
    by (simp add: busy_publisher_controller_def NR_REF_ITFS_def)
  have h2: "length (reference_interfaces nan_reference_controller) = NR_REF_ITFS"
    by (simp add: nan_reference_controller_def NR_REF_ITFS_def)
  have l: "\<not> trylock (controller_state_publisher busy_publisher_controller)"
    "trylock (controller_state_publisher nan_reference_controller)"
    by (simp_all add: busy_publisher_controller_def nan_reference_controller_def
        test_controller_def trylock_def unlockAndPublish_def)
  from C7_reference_reset_to_nan [OF h1, of 7 1 7] C7_reference_reset_to_nan [OF h2, of 7 1 7] l
  show ?thesis by simp
qed

subsection \<open>C8: activation resets the command buffer\<close>

text \<open>
  Claim C8. Whatever command the buffer holds when \<^verbatim>\<open>on_activate\<close> is called, the call
  succeeds and the buffered command afterwards is the stop sentinel: all six twist
  components NaN and the stamp the node's current time.
\<close>

theorem C8_on_activate_stop_sentinel:
  assumes "buffered_command (input_ref s) = Some m"
  shows "\<exists>s' v. on_activate now s = Some (SUCCESS, s')
           \<and> buffered_command (input_ref s') = Some v
           \<and> header_stamp v = now
           \<and> isnan (twist_linear_x v) \<and> isnan (twist_linear_y v) \<and> isnan (twist_linear_z v)
           \<and> isnan (twist_angular_x v) \<and> isnan (twist_angular_y v) \<and> isnan (twist_angular_z v)"
  using assms
  by (auto simp add: on_activate_def buffered_command_def Let_def readFromRT_def
      reset_controller_reference_msg_def)

theorem C8_witness:
  "buffered_command (input_ref early_command_controller)
     = Some (twist_stamped 3 (Val 1) (Val 2) (Val 3))
   \<and> (\<exists>s' v. on_activate 4 early_command_controller = Some (SUCCESS, s')
           \<and> buffered_command (input_ref s') = Some v
           \<and> header_stamp v = 4
           \<and> isnan (twist_linear_x v) \<and> isnan (twist_linear_y v) \<and> isnan (twist_linear_z v)
           \<and> isnan (twist_angular_x v) \<and> isnan (twist_angular_y v) \<and> isnan (twist_angular_z v))"
proof -
  have h: "buffered_command (input_ref early_command_controller)
     = Some (twist_stamped 3 (Val 1) (Val 2) (Val 3))"
    by (simp add: early_command_controller_def timeout_controller_def reference_callback_def
        Let_def buffered_command_write twist_stamped_def)
  from C8_on_activate_stop_sentinel [OF h, of 4] h show ?thesis by simp
qed

subsection \<open>C9: the gate of the subscriber callback\<close>



subsection \<open>C10: a consumed command is ignored from then on\<close>

text \<open>
  Claim C10. When \<^verbatim>\<open>update_reference_from_subscribers\<close> finds a valid command whose age
  exceeds the timeout, that is, when it takes the stop branch or the zero-timeout branch,
  it overwrites the three components of the buffered command with NaN. As long as nothing
  else writes the buffer, every later call, at any time and from any state of the other
  members, returns OK and changes nothing: no second stop is written and the reference
  interfaces are left as they are.
\<close>

theorem C10_consumed_command_ignored:
  assumes "buffered_command (input_ref s) = Some cmd"
    and "is_msg_valid cmd"
    and "ref_timeout s < time - header_stamp cmd"
  shows "\<exists>s' m'. update_reference_from_subscribers time period s = Some (OK, s')
           \<and> buffered_command (input_ref s') = Some m'
           \<and> m' = cmd\<lparr>twist_linear_x := NaN, twist_linear_y := NaN, twist_angular_z := NaN\<rparr>
           \<and> (\<forall>s2 time2 period2. input_ref s2 = input_ref s' \<longrightarrow>
                 update_reference_from_subscribers time2 period2 s2 = Some (OK, s2))"
  using assms
  by (auto simp add: update_reference_from_subscribers_def buffered_command_def Let_def
      readFromRT_def is_msg_valid_def quiet_NaN_def)

theorem C10_witness:
  "(\<exists>s' m'. update_reference_from_subscribers 20 1 stale_controller = Some (OK, s')
      \<and> reference_interfaces s' = [Val 0, Val 0, Val 0]
      \<and> buffered_command (input_ref s') = Some m'
      \<and> m' = twist_stamped 10 NaN NaN NaN
      \<and> update_reference_from_subscribers 21 1 (snd (update_and_write_commands 20 1 20 s'))
           = Some (OK, snd (update_and_write_commands 20 1 20 s')))
   \<and> (\<exists>s' m'. update_reference_from_subscribers 11 1 zero_timeout_controller = Some (OK, s')
      \<and> reference_interfaces s' = [Val 1, Val 0, Val 0]
      \<and> buffered_command (input_ref s') = Some m'
      \<and> m' = twist_stamped 10 NaN NaN NaN
      \<and> update_reference_from_subscribers 12 1 (snd (update_and_write_commands 11 1 11 s'))
           = Some (OK, snd (update_and_write_commands 11 1 11 s')))"
proof -
  let ?c = "twist_stamped 10 (Val 1) (Val 2) (Val 3)"
  let ?d = "twist_stamped 10 (Val 1) (Val 0) (Val 0)"
  have a: "buffered_command (input_ref stale_controller) = Some ?c"
    "is_msg_valid ?c" "ref_timeout stale_controller < 20 - header_stamp ?c"
    by (simp_all add: stale_controller_def buffered_command_write is_msg_valid_def
        twist_stamped_def)
  have b: "buffered_command (input_ref zero_timeout_controller) = Some ?d"
    "is_msg_valid ?d" "ref_timeout zero_timeout_controller < 11 - header_stamp ?d"
    by (simp_all add: zero_timeout_controller_def buffered_command_write is_msg_valid_def
        twist_stamped_def)
  obtain s1 where s1: "update_reference_from_subscribers 20 1 stale_controller = Some (OK, s1)"
    "buffered_command (input_ref s1)
       = Some (?c\<lparr>twist_linear_x := NaN, twist_linear_y := NaN, twist_angular_z := NaN\<rparr>)"
    "\<forall>s2 time2 period2. input_ref s2 = input_ref s1 \<longrightarrow>
         update_reference_from_subscribers time2 period2 s2 = Some (OK, s2)"
    using C10_consumed_command_ignored [OF a, of 1] by blast
  obtain s2 where s2:
    "update_reference_from_subscribers 11 1 zero_timeout_controller = Some (OK, s2)"
    "buffered_command (input_ref s2)
       = Some (?d\<lparr>twist_linear_x := NaN, twist_linear_y := NaN, twist_angular_z := NaN\<rparr>)"
    "\<forall>s3 time2 period2. input_ref s3 = input_ref s2 \<longrightarrow>
         update_reference_from_subscribers time2 period2 s3 = Some (OK, s3)"
    using C10_consumed_command_ignored [OF b, of 1] by blast
  have r1: "reference_interfaces s1 = [Val 0, Val 0, Val 0]"
    using s1(1)
    by (simp add: update_reference_from_subscribers_def Let_def stale_controller_def
        readFromRT_def writeFromNonRT_def is_msg_valid_def twist_stamped_def zero_double_def)
       auto
  have r2: "reference_interfaces s2 = [Val 1, Val 0, Val 0]"
    using s2(1)
    by (simp add: update_reference_from_subscribers_def Let_def zero_timeout_controller_def
        readFromRT_def writeFromNonRT_def is_msg_valid_def twist_stamped_def)
       auto
  have m: "?c\<lparr>twist_linear_x := NaN, twist_linear_y := NaN, twist_angular_z := NaN\<rparr>
             = twist_stamped 10 NaN NaN NaN"
    "?d\<lparr>twist_linear_x := NaN, twist_linear_y := NaN, twist_angular_z := NaN\<rparr>
             = twist_stamped 10 NaN NaN NaN"
    by (simp_all add: twist_stamped_def)
  show ?thesis
    using s1 s2 r1 r2 by (simp add: m update_and_write_commands_input_ref)
qed

end
